theory Spec2Isabelle
  imports Complex_Main "HOL-Library.Sublist"
begin

section \<open>Data model of the meal-plan solver (src/backend/server.py)\<close>

text \<open>
  The request handler \<^verbatim>\<open>solve_meal_plan\<close> builds a 0/1 linear program with PuLP, hands it
  to an external solver and reads the schedule back from the variable values.

  Numbers of the request (quantities, weights, ingredient amounts) are Python floats; they
  are modelled by the real numbers they denote, so rounding of float arithmetic is not
  part of this model. JSON objects (Python dicts) are association lists in insertion
  order; a dict has no repeated key.
\<close>

subsection \<open>Request data\<close>

text \<open>A Python float as \<^verbatim>\<open>float()\<close> can return it: a finite value, an infinity or NaN.\<close>

datatype py_float = Finite real | PosInf | NegInf | NaN

text \<open>The JSON value found under \<^verbatim>\<open>days_until_expiry\<close>.\<close>

datatype raw = RInt int | RFloat py_float | RStr string | RBool bool | RNull | ROther

text \<open>An inventory entry that is a dict; every key may be absent.\<close>

record item_dict =
  qty :: "real option"
  expiry_weight :: "real option"
  days_until_expiry :: "raw option"

text \<open>
  The source accepts an inventory entry that is a dict, a bare number, or anything else
  (\<^verbatim>\<open>isinstance(item_data, dict)\<close>, \<^verbatim>\<open>isinstance(item_data, (int, float))\<close>).
\<close>

datatype item_data = ItemDict item_dict | ItemNum real | ItemOther

type_synonym inventory = "(string \<times> item_data) list"

record recipe =
  recipe_id :: int
  title :: string
  ingredients :: "(string \<times> real) list option"

text \<open>\<^verbatim>\<open>r.get('ingredients', {})\<close>\<close>

definition ingredients_of :: "recipe \<Rightarrow> (string \<times> real) list" where
  "ingredients_of r = (case ingredients r of None \<Rightarrow> [] | Some xs \<Rightarrow> xs)"

text \<open>\<^verbatim>\<open>r.get('ingredients', {}).get(item_name, 0.0)\<close>\<close>

definition amount_of :: "recipe \<Rightarrow> string \<Rightarrow> real" where
  "amount_of r item_name =
     (case map_of (ingredients_of r) item_name of None \<Rightarrow> 0 | Some q \<Rightarrow> q)"

text \<open>\<^verbatim>\<open>item_name in r.get('ingredients', {})\<close>\<close>

definition uses_item :: "recipe \<Rightarrow> string \<Rightarrow> bool" where
  "uses_item r item_name = (item_name \<in> set (map fst (ingredients_of r)))"

text \<open>
  Lines 113-116: \<^verbatim>\<open>item_data.get('expiry_weight', 1.0)\<close> for a dict, \<^verbatim>\<open>1.0\<close> otherwise.
\<close>

fun expiry_weight_of :: "item_data \<Rightarrow> real" where
  "expiry_weight_of (ItemDict it) = (case expiry_weight it of None \<Rightarrow> 1 | Some w \<Rightarrow> w)"
| "expiry_weight_of (ItemNum q) = 1"
| "expiry_weight_of ItemOther = 1"

text \<open>
  Lines 147-150: \<^verbatim>\<open>item_data.get('qty', 0.0)\<close> for a dict, the number itself for a bare
  number, \<^verbatim>\<open>0.0\<close> otherwise.
\<close>

fun available_qty :: "item_data \<Rightarrow> real" where
  "available_qty (ItemDict it) = (case qty it of None \<Rightarrow> 0 | Some q \<Rightarrow> q)"
| "available_qty (ItemNum q) = q"
| "available_qty ItemOther = 0"

subsection \<open>The linear program\<close>

text \<open>
  A decision variable is the key of the dict \<^verbatim>\<open>x\<close>: \<^verbatim>\<open>(d, m, r['id'])\<close>. All of them are
  declared \<^verbatim>\<open>cat='Binary'\<close>.
\<close>

type_synonym var = "nat \<times> string \<times> int"

type_synonym assignment = "var \<Rightarrow> real"

text \<open>
  A linear expression is the list of its terms \<^verbatim>\<open>coefficient * variable\<close> in the order
  \<^verbatim>\<open>lpSum\<close> receives them. PuLP adds the coefficients of the terms of one variable.
\<close>

type_synonym linexpr = "(real \<times> var) list"

definition coeff :: "linexpr \<Rightarrow> var \<Rightarrow> real" where
  "coeff e v = (\<Sum>(c, w)\<leftarrow>e. if w = v then c else 0)"

definition eval :: "assignment \<Rightarrow> linexpr \<Rightarrow> real" where
  "eval a e = (\<Sum>(c, w)\<leftarrow>e. c * a w)"

text \<open>
  A constraint is \<^verbatim>\<open>expression <= constant\<close> or \<^verbatim>\<open>expression == constant\<close>. The name
  given with \<^verbatim>\<open>prob += constraint, name\<close> is a label of the LP file and is left out,
  and with it what PuLP, which is not part of the repository, does with a label that a
  problem already has. Labels repeat only when meal types, recipe ids or item names do or
  print alike; the problems below are what the handler hands to PuLP, and what is proved
  of a request holds where PuLP takes every label.
\<close>

datatype constraint = Le linexpr real | Eq linexpr real

fun holds :: "assignment \<Rightarrow> constraint \<Rightarrow> bool" where
  "holds a (Le e b) = (eval a e \<le> b)"
| "holds a (Eq e b) = (eval a e = b)"

fun cvars :: "constraint \<Rightarrow> var list" where
  "cvars (Le e b) = map snd e"
| "cvars (Eq e b) = map snd e"

record lp_problem =
  objective :: linexpr
  constraints :: "constraint list"

definition vars_of :: "lp_problem \<Rightarrow> var set" where
  "vars_of p = set (map snd (objective p)) \<union> set (concat (map cvars (constraints p)))"

definition satisfies :: "assignment \<Rightarrow> lp_problem \<Rightarrow> bool" where
  "satisfies a p = list_all (holds a) (constraints p)"

text \<open>Every variable of the problem takes the value 0 or 1.\<close>

definition binary_on :: "assignment \<Rightarrow> lp_problem \<Rightarrow> bool" where
  "binary_on a p = (\<forall>v \<in> vars_of p. a v = 0 \<or> a v = 1)"

section \<open>Model builder\<close>

subsection \<open>Objective (lines 98-130, again 270-289 with the reduced horizon)\<close>

text \<open>
  The inner loop over \<^verbatim>\<open>r.get('ingredients', {}).items()\<close> with its accumulator
  \<^verbatim>\<open>recipe_value\<close>, started at \<^verbatim>\<open>0.0\<close>.
\<close>

fun recipe_value_loop :: "inventory \<Rightarrow> (string \<times> real) list \<Rightarrow> real \<Rightarrow> real" where
  "recipe_value_loop inventory [] recipe_value = recipe_value"
| "recipe_value_loop inventory ((item_name, amount_needed) # rest) recipe_value =
     (case map_of inventory item_name of
        None \<Rightarrow> recipe_value_loop inventory rest recipe_value
      | Some item_data \<Rightarrow>
          recipe_value_loop inventory rest
            (recipe_value + expiry_weight_of item_data * amount_needed))"

definition recipe_value :: "inventory \<Rightarrow> recipe \<Rightarrow> real" where
  "recipe_value inventory r = recipe_value_loop inventory (ingredients_of r) 0"

definition base_slot_fill_bonus :: real where
  "base_slot_fill_bonus = 10000"

text \<open>
  The coefficient \<^verbatim>\<open>recipe_value_scaled + slot_bonus\<close> of one term, for a horizon of
  \<^verbatim>\<open>days\<close> days.
\<close>

definition term_weight :: "inventory \<Rightarrow> nat \<Rightarrow> nat \<Rightarrow> recipe \<Rightarrow> real" where
  "term_weight inventory days d r =
     (let recipe_value_scaled = recipe_value inventory r * 100;
          day_priority_multiplier = (int days - int d + 1) ^ 2;
          slot_bonus = base_slot_fill_bonus * of_int day_priority_multiplier
      in recipe_value_scaled + slot_bonus)"

text \<open>The three nested loops appending to \<^verbatim>\<open>objective_terms\<close>.\<close>

definition objective_terms :: "inventory \<Rightarrow> recipe list \<Rightarrow> nat \<Rightarrow> string list \<Rightarrow> linexpr" where
  "objective_terms inventory recipes days meals =
     concat (map (\<lambda>d. concat (map (\<lambda>m.
        map (\<lambda>r. (term_weight inventory days d r, (d, m, recipe_id r))) recipes) meals)) [0..<days])"

subsection \<open>Constraint families\<close>

text \<open>Constraint 1 (lines 134-136): at most one recipe per meal slot.\<close>

definition at_most_one_recipe_per_meal :: "recipe list \<Rightarrow> nat \<Rightarrow> string list \<Rightarrow> constraint list" where
  "at_most_one_recipe_per_meal recipes days meals =
     concat (map (\<lambda>d. map (\<lambda>m.
        Le (map (\<lambda>r. (1, (d, m, recipe_id r))) recipes) 1) meals) [0..<days])"

text \<open>Constraint 1b (lines 139-142): a recipe at most once per day.\<close>

definition no_duplicate_recipe :: "recipe list \<Rightarrow> nat \<Rightarrow> string list \<Rightarrow> constraint list" where
  "no_duplicate_recipe recipes days meals =
     concat (map (\<lambda>d. map (\<lambda>r.
        Le (map (\<lambda>m. (1, (d, m, recipe_id r))) meals) 1) recipes) [0..<days])"

text \<open>Constraint 2 (lines 153-160): total usage of one item within its quantity.\<close>

definition total_usage :: "recipe list \<Rightarrow> nat \<Rightarrow> string list \<Rightarrow> string \<Rightarrow> linexpr" where
  "total_usage recipes days meals item_name =
     concat (map (\<lambda>d. concat (map (\<lambda>m.
        map (\<lambda>r. (amount_of r item_name, (d, m, recipe_id r))) recipes) meals)) [0..<days])"

definition inventory_limit :: "recipe list \<Rightarrow> nat \<Rightarrow> string list \<Rightarrow> string \<times> item_data \<Rightarrow> constraint" where
  "inventory_limit recipes days meals entry =
     Le (total_usage recipes days meals (fst entry)) (available_qty (snd entry))"

text \<open>
  Constraint 2b (lines 165-189): the conversion \<^verbatim>\<open>int(round(float(days_until_expiry_raw)))\<close>.
  \<^verbatim>\<open>float\<close> of a string is Python's own parser, taken as the parameter \<open>parse\<close>
  (\<open>None\<close> when it raises ValueError). \<^verbatim>\<open>float\<close> of an integer raises OverflowError from
  \<open>2^1024 - 2^970\<close> on; below that it is modelled by the integer itself (the rounding to
  53 bits of an integer above \<open>2^53\<close> moves no value across 0 or across a horizon of at
  most 7 days). \<^verbatim>\<open>round\<close> of a float rounds halves to the even neighbour, raises
  ValueError on NaN and OverflowError on an infinity.
\<close>

datatype py_error = ValueError | TypeError | OverflowError | SolverError

fun float_py :: "(string \<Rightarrow> py_float option) \<Rightarrow> raw \<Rightarrow> py_error + py_float" where
  "float_py parse (RInt i) =
     (if 2 ^ 1024 - 2 ^ 970 \<le> \<bar>i\<bar> then Inl OverflowError else Inr (Finite (of_int i)))"
| "float_py parse (RFloat f) = Inr f"
| "float_py parse (RStr s) = (case parse s of None \<Rightarrow> Inl ValueError | Some f \<Rightarrow> Inr f)"
| "float_py parse (RBool b) = Inr (Finite (if b then 1 else 0))"
| "float_py parse RNull = Inl TypeError"
| "float_py parse ROther = Inl TypeError"

definition round_half_even :: "real \<Rightarrow> int" where
  "round_half_even x =
     (let f = \<lfloor>x\<rfloor>; r = x - of_int f
      in if r < 1 / 2 then f else if 1 / 2 < r then f + 1 else if even f then f else f + 1)"

fun round_py :: "py_float \<Rightarrow> py_error + int" where
  "round_py (Finite x) = Inr (round_half_even x)"
| "round_py PosInf = Inl OverflowError"
| "round_py NegInf = Inl OverflowError"
| "round_py NaN = Inl ValueError"

definition days_until_expiry_int :: "(string \<Rightarrow> py_float option) \<Rightarrow> raw \<Rightarrow> py_error + int" where
  "days_until_expiry_int parse days_until_expiry_raw =
     (case float_py parse days_until_expiry_raw of
        Inl e \<Rightarrow> Inl e
      | Inr f \<Rightarrow> round_py f)"

text \<open>
  The loops of lines 173-177 and 180-185 over a range \<open>ds\<close> of days: one constraint
  \<^verbatim>\<open>x[(d, m, r['id'])] == 0\<close> for every recipe that has the item among its ingredients.
\<close>

definition forbid :: "recipe list \<Rightarrow> string list \<Rightarrow> string \<Rightarrow> nat list \<Rightarrow> constraint list" where
  "forbid recipes meals item_name ds =
     concat (map (\<lambda>d. concat (map (\<lambda>m.
        map (\<lambda>r. Eq [(1, (d, m, recipe_id r))] 0)
          (filter (\<lambda>r. uses_item r item_name) recipes)) meals)) ds)"

definition expired_item :: "recipe list \<Rightarrow> nat \<Rightarrow> string list \<Rightarrow> string \<Rightarrow> int \<Rightarrow> constraint list" where
  "expired_item recipes days meals item_name k =
     (if k \<le> 0 then forbid recipes meals item_name [0..<days]
      else if k < int days then forbid recipes meals item_name [nat k..<days]
      else [])"

text \<open>\<^verbatim>\<open>except (ValueError, TypeError)\<close>: any other exception leaves the handler's \<^verbatim>\<open>try\<close>.\<close>

definition caught :: "py_error \<Rightarrow> bool" where
  "caught e = (e = ValueError \<or> e = TypeError)"

text \<open>
  The line that the \<^verbatim>\<open>except\<close> branch prints (line 188): the item's name, the value of
  its \<^verbatim>\<open>days_until_expiry\<close> and the exception.
\<close>

datatype warning = InvalidDaysUntilExpiry string raw py_error

text \<open>
  The body of the loop over \<^verbatim>\<open>inventory.items()\<close> (lines 145-189): the constraints it
  hands to \<^verbatim>\<open>prob +=\<close> and the warnings it prints.
\<close>

definition item_constraints ::
  "(string \<Rightarrow> py_float option) \<Rightarrow> recipe list \<Rightarrow> nat \<Rightarrow> string list \<Rightarrow> string \<times> item_data
     \<Rightarrow> py_error + constraint list \<times> warning list" where
  "item_constraints parse recipes days meals entry =
     (let limit = inventory_limit recipes days meals entry
      in case snd entry of
           ItemDict it \<Rightarrow>
             (case days_until_expiry it of
                None \<Rightarrow> Inr ([limit], [])
              | Some days_until_expiry_raw \<Rightarrow>
                  (case days_until_expiry_int parse days_until_expiry_raw of
                     Inl e \<Rightarrow>
                       if caught e
                       then Inr ([limit],
                                 [InvalidDaysUntilExpiry (fst entry) days_until_expiry_raw e])
                       else Inl e
                   | Inr k \<Rightarrow>
                       Inr (limit # expired_item recipes days meals (fst entry) k, [])))
         | ItemNum q \<Rightarrow> Inr ([limit], [])
         | ItemOther \<Rightarrow> Inr ([limit], []))"

fun inventory_constraints ::
  "(string \<Rightarrow> py_float option) \<Rightarrow> recipe list \<Rightarrow> nat \<Rightarrow> string list \<Rightarrow> inventory
     \<Rightarrow> py_error + constraint list \<times> warning list" where
  "inventory_constraints parse recipes days meals [] = Inr ([], [])"
| "inventory_constraints parse recipes days meals (entry # rest) =
     (case item_constraints parse recipes days meals entry of
        Inl e \<Rightarrow> Inl e
      | Inr (cs, ws) \<Rightarrow>
          (case inventory_constraints parse recipes days meals rest of
             Inl e \<Rightarrow> Inl e
           | Inr (cs', ws') \<Rightarrow> Inr (cs @ cs', ws @ ws')))"

text \<open>Constraint 3 (lines 193-197): not the same recipe for the same meal on two days running.\<close>

definition no_consecutive :: "recipe list \<Rightarrow> nat \<Rightarrow> string list \<Rightarrow> constraint list" where
  "no_consecutive recipes days meals =
     concat (map (\<lambda>d. concat (map (\<lambda>m.
        map (\<lambda>r. Le [(1, (d, m, recipe_id r)), (1, (d + 1, m, recipe_id r))] 1) recipes)
          meals)) [0..<days - 1])"

subsection \<open>The three problems\<close>

text \<open>
  The handler builds its problem three times inline: \<^verbatim>\<open>prob\<close> (lines 87-197),
  \<^verbatim>\<open>prob2\<close> (lines 209-255) and \<^verbatim>\<open>prob3\<close> (lines 268-333). The three copies differ in the
  horizon (\<^verbatim>\<open>days\<close>, \<^verbatim>\<open>days\<close>, \<^verbatim>\<open>reduced_days\<close>), in constraint 3, which only \<^verbatim>\<open>prob\<close>
  has, and in the labels of the constraints. \<^verbatim>\<open>prob2\<close> takes the objective terms of
  \<^verbatim>\<open>prob\<close>, which are those of the same horizon. \<open>build_model\<close> is that text with the
  horizon and the presence of constraint 3 as parameters; its value is the problem, which
  does not depend on the warnings printed on the way.
\<close>

definition build_model ::
  "(string \<Rightarrow> py_float option) \<Rightarrow> bool \<Rightarrow> inventory \<Rightarrow> recipe list \<Rightarrow> nat \<Rightarrow> string list
     \<Rightarrow> py_error + lp_problem" where
  "build_model parse anti inventory recipes days meals =
     (case inventory_constraints parse recipes days meals inventory of
        Inl e \<Rightarrow> Inl e
      | Inr (item_cs, warnings) \<Rightarrow>
          Inr \<lparr>objective = objective_terms inventory recipes days meals,
               constraints =
                 at_most_one_recipe_per_meal recipes days meals
                 @ no_duplicate_recipe recipes days meals
                 @ item_cs
                 @ (if anti then no_consecutive recipes days meals else [])\<rparr>)"

section \<open>Solving with fallbacks (lines 199-342)\<close>

text \<open>
  \<^verbatim>\<open>LpStatus\<close> of PuLP, with the \<^verbatim>\<open>'Feasible'\<close> the handler also tests for. The solver is
  outside the repository: it is a parameter, a function from the problem to the status
  and the variable values, \<open>None\<close> when the call raises.
\<close>

datatype status = Optimal | Feasible | Infeasible | Unbounded | Undefined | NotSolved

type_synonym solver = "lp_problem \<Rightarrow> (status \<times> assignment) option"

text \<open>\<^verbatim>\<open>status_code in ['Optimal', 'Feasible']\<close>\<close>

definition ok :: "status \<Rightarrow> bool" where
  "ok st = (st = Optimal \<or> st = Feasible)"

text \<open>
  What the handler holds at line 344: the status, and after a success the horizon
  \<^verbatim>\<open>days\<close> and the variable values that the extraction reads.
\<close>

datatype outcome = Solved status nat assignment | Unsolved status

text \<open>
  The loop \<^verbatim>\<open>for reduced_days in range(days - 1, 0, -1)\<close>, by recursion on
  \<^verbatim>\<open>reduced_days\<close>. When it runs out, \<^verbatim>\<open>status_code\<close> is still that of \<^verbatim>\<open>prob2\<close>.
\<close>

fun shrink ::
  "solver \<Rightarrow> (string \<Rightarrow> py_float option) \<Rightarrow> inventory \<Rightarrow> recipe list \<Rightarrow> string list \<Rightarrow> status
     \<Rightarrow> nat \<Rightarrow> py_error + outcome" where
  "shrink solve parse inventory recipes meals status_code 0 = Inr (Unsolved status_code)"
| "shrink solve parse inventory recipes meals status_code (Suc n) =
     (case build_model parse False inventory recipes (Suc n) meals of
        Inl e \<Rightarrow> Inl e
      | Inr prob3 \<Rightarrow>
          (case solve prob3 of
             None \<Rightarrow> Inl SolverError
           | Some (test_status, a) \<Rightarrow>
               if ok test_status then Inr (Solved test_status (Suc n) a)
               else shrink solve parse inventory recipes meals status_code n))"

definition solve_with_fallbacks ::
  "solver \<Rightarrow> (string \<Rightarrow> py_float option) \<Rightarrow> inventory \<Rightarrow> recipe list \<Rightarrow> nat \<Rightarrow> string list
     \<Rightarrow> py_error + outcome" where
  "solve_with_fallbacks solve parse inventory recipes days meals =
     (case build_model parse True inventory recipes days meals of
        Inl e \<Rightarrow> Inl e
      | Inr prob \<Rightarrow>
          (case solve prob of
             None \<Rightarrow> Inl SolverError
           | Some (status_code, a) \<Rightarrow>
               if ok status_code then Inr (Solved status_code days a)
               else
                 (case build_model parse False inventory recipes days meals of
                    Inl e \<Rightarrow> Inl e
                  | Inr prob2 \<Rightarrow>
                      (case solve prob2 of
                         None \<Rightarrow> Inl SolverError
                       | Some (status_code2, a2) \<Rightarrow>
                           if ok status_code2 then Inr (Solved status_code2 days a2)
                           else shrink solve parse inventory recipes meals status_code2
                                  (days - 1)))))"

section \<open>Schedule extraction (lines 344-364)\<close>

text \<open>The loop over the recipes, left by \<^verbatim>\<open>break\<close> at the first variable of value 1.\<close>

fun first_selected :: "assignment \<Rightarrow> nat \<Rightarrow> string \<Rightarrow> recipe list \<Rightarrow> (string \<times> int) list" where
  "first_selected a d m [] = []"
| "first_selected a d m (r # rs) =
     (if a (d, m, recipe_id r) = 1 then [(m, recipe_id r)] else first_selected a d m rs)"

text \<open>The loop over the meals, appending to \<^verbatim>\<open>day_meals\<close>.\<close>

fun day_meals_loop ::
  "assignment \<Rightarrow> nat \<Rightarrow> recipe list \<Rightarrow> string list \<Rightarrow> (string \<times> int) list \<Rightarrow> (string \<times> int) list" where
  "day_meals_loop a d recipes [] day_meals = day_meals"
| "day_meals_loop a d recipes (m # ms) day_meals =
     day_meals_loop a d recipes ms (day_meals @ first_selected a d m recipes)"

text \<open>
  The loop over the days, appending to \<^verbatim>\<open>schedule\<close>. A day entry is the number printed
  in its label \<^verbatim>\<open>Day {d + 1}\<close> and its meals \<^verbatim>\<open>(type, recipeId)\<close>.
\<close>

type_synonym day_entry = "nat \<times> (string \<times> int) list"

fun schedule_loop ::
  "assignment \<Rightarrow> recipe list \<Rightarrow> string list \<Rightarrow> nat list \<Rightarrow> day_entry list \<Rightarrow> day_entry list" where
  "schedule_loop a recipes meals [] schedule = schedule"
| "schedule_loop a recipes meals (d # ds) schedule =
     (let day_meals = day_meals_loop a d recipes meals []
      in schedule_loop a recipes meals ds
           (if length day_meals > 0 then schedule @ [(d + 1, day_meals)] else schedule))"

definition extract_schedule :: "assignment \<Rightarrow> recipe list \<Rightarrow> nat \<Rightarrow> string list \<Rightarrow> day_entry list" where
  "extract_schedule a recipes days meals = schedule_loop a recipes meals [0..<days] []"

section \<open>The endpoint\<close>

record request =
  req_inventory :: inventory
  req_recipes :: "recipe list"
  req_days :: int
  req_meals :: "string list"

datatype response =
    Schedule status "day_entry list"
  | NoSolution status
  | BadRequest
  | ServerError py_error

text \<open>
  The request is the JSON object of the body with its four fields. Lines 58-81 reject an
  empty inventory, recipe list or meal list and a number of days outside 1..7 with status
  400; the outer \<^verbatim>\<open>except Exception\<close> turns every exception into status 500. The
  messages of these responses are left out.
\<close>

definition solve_meal_plan :: "solver \<Rightarrow> (string \<Rightarrow> py_float option) \<Rightarrow> request \<Rightarrow> response" where
  "solve_meal_plan solve parse req =
     (if req_inventory req = [] then BadRequest
      else if req_recipes req = [] then BadRequest
      else if req_meals req = [] then BadRequest
      else if req_days req < 1 \<or> req_days req > 7 then BadRequest
      else
        (case solve_with_fallbacks solve parse (req_inventory req) (req_recipes req)
                (nat (req_days req)) (req_meals req) of
           Inl e \<Rightarrow> ServerError e
         | Inr (Solved status_code days a) \<Rightarrow>
             Schedule status_code (extract_schedule a (req_recipes req) days (req_meals req))
         | Inr (Unsolved status_code) \<Rightarrow> NoSolution status_code))"

section \<open>Reading a schedule back\<close>

text \<open>
  The amount of an item that a schedule entry \<^verbatim>\<open>{type, recipeId}\<close> stands for: that of
  the catalog's recipe with this id.
\<close>

definition required_amount :: "recipe list \<Rightarrow> string \<Rightarrow> int \<Rightarrow> real" where
  "required_amount recipes item_name i =
     (case find (\<lambda>r. recipe_id r = i) recipes of
        None \<Rightarrow> 0
      | Some r \<Rightarrow> amount_of r item_name)"

definition schedule_usage :: "recipe list \<Rightarrow> string \<Rightarrow> day_entry list \<Rightarrow> real" where
  "schedule_usage recipes item_name schedule =
     (\<Sum>(label, day_meals)\<leftarrow>schedule. \<Sum>(m, i)\<leftarrow>day_meals. required_amount recipes item_name i)"

section \<open>Requests without the malformed values\<close>

text \<open>
  The conversion of the entry's \<^verbatim>\<open>days_until_expiry\<close> raises ValueError or TypeError.
\<close>

definition malformed :: "(string \<Rightarrow> py_float option) \<Rightarrow> string \<times> item_data \<Rightarrow> bool" where
  "malformed parse entry =
     (case snd entry of
        ItemDict it \<Rightarrow>
          (case days_until_expiry it of
             None \<Rightarrow> False
           | Some days_until_expiry_raw \<Rightarrow>
               (case days_until_expiry_int parse days_until_expiry_raw of
                  Inl e \<Rightarrow> caught e
                | Inr k \<Rightarrow> False))
      | ItemNum q \<Rightarrow> False
      | ItemOther \<Rightarrow> False)"

text \<open>The entry without its \<^verbatim>\<open>days_until_expiry\<close> key.\<close>

definition without_expiry :: "string \<times> item_data \<Rightarrow> string \<times> item_data" where
  "without_expiry entry =
     (case snd entry of
        ItemDict it \<Rightarrow> (fst entry, ItemDict (it\<lparr>days_until_expiry := None\<rparr>))
      | ItemNum q \<Rightarrow> entry
      | ItemOther \<Rightarrow> entry)"

text \<open>The request in which every malformed \<^verbatim>\<open>days_until_expiry\<close> is taken out.\<close>

definition skip_malformed ::
  "(string \<Rightarrow> py_float option) \<Rightarrow> string \<times> item_data \<Rightarrow> string \<times> item_data" where
  "skip_malformed parse entry = (if malformed parse entry then without_expiry entry else entry)"


section \<open>The order of attempts in the words of the specification\<close>



section \<open>What is expected of the solver\<close>

text \<open>The problem has a solution in 0/1 values.\<close>

definition feasible :: "lp_problem \<Rightarrow> bool" where
  "feasible p = (\<exists>b. binary_on b p \<and> satisfies b p)"

text \<open>
  An exact solver on a problem: Optimal with values that satisfy the problem and maximise
  the objective when the problem has a solution, Infeasible when it has none.
\<close>

definition solves_exactly :: "solver \<Rightarrow> lp_problem \<Rightarrow> bool" where
  "solves_exactly solve p =
     (case solve p of
        None \<Rightarrow> False
      | Some (st, a) \<Rightarrow>
          if feasible p
          then st = Optimal \<and> binary_on a p \<and> satisfies a p \<and>
               (\<forall>b. binary_on b p \<and> satisfies b p \<longrightarrow>
                    eval b (objective p) \<le> eval a (objective p))
          else st = Infeasible)"

section \<open>The scenario of the specification's section 8\<close>

text \<open>
  Inventory \<^verbatim>\<open>{eggs: qty=2, expiryWeight=5}\<close>, one recipe
  \<^verbatim>\<open>{id:0, title:"Omelet", ingredients:{eggs:1}}\<close>, two days, one meal type.
\<close>

definition omelet_inventory :: inventory where
  "omelet_inventory =
     [(''eggs'', ItemDict \<lparr>qty = Some 2, expiry_weight = Some 5, days_until_expiry = None\<rparr>)]"

definition omelet_recipes :: "recipe list" where
  "omelet_recipes = [\<lparr>recipe_id = 0, title = ''Omelet'', ingredients = Some [(''eggs'', 1)]\<rparr>]"

definition omelet_request :: request where
  "omelet_request =
     \<lparr>req_inventory = omelet_inventory, req_recipes = omelet_recipes, req_days = 2,
      req_meals = [''Breakfast'']\<rparr>"

text \<open>The full model of the scenario, written out.\<close>

definition omelet_problem :: lp_problem where
  "omelet_problem =
     \<lparr>objective = [(90500, (0, ''Breakfast'', 0)), (40500, (1, ''Breakfast'', 0))],
      constraints =
        [Le [(1, (0, ''Breakfast'', 0))] 1, Le [(1, (1, ''Breakfast'', 0))] 1,
         Le [(1, (0, ''Breakfast'', 0))] 1, Le [(1, (1, ''Breakfast'', 0))] 1,
         Le [(1, (0, ''Breakfast'', 0)), (1, (1, ''Breakfast'', 0))] 2,
         Le [(1, (0, ''Breakfast'', 0)), (1, (1, ''Breakfast'', 0))] 1]\<rparr>"

text \<open>Stand-ins for the external parts, for concrete runs.\<close>

definition reject_all :: "string \<Rightarrow> py_float option" where
  "reject_all s = None"

definition day_one_only :: assignment where
  "day_one_only v = (if v = (0, ''Breakfast'', 0) then 1 else 0)"

definition omelet_solver :: solver where
  "omelet_solver p = Some (Optimal, day_one_only)"



text \<open>An item that expires after one day, and the full model of two days built from it.\<close>

definition milk_inventory :: inventory where
  "milk_inventory =
     [(''milk'', ItemDict \<lparr>qty = Some 3, expiry_weight = None, days_until_expiry = Some (RInt 1)\<rparr>)]"

definition milk_recipes :: "recipe list" where
  "milk_recipes = [\<lparr>recipe_id = 7, title = ''Porridge'', ingredients = Some [(''milk'', 1)]\<rparr>]"

definition milk_problem :: lp_problem where
  "milk_problem =
     \<lparr>objective = [(90100, (0, ''Breakfast'', 7)), (40100, (1, ''Breakfast'', 7))],
      constraints =
        [Le [(1, (0, ''Breakfast'', 7))] 1, Le [(1, (1, ''Breakfast'', 7))] 1,
         Le [(1, (0, ''Breakfast'', 7))] 1, Le [(1, (1, ''Breakfast'', 7))] 1,
         Le [(1, (0, ''Breakfast'', 7)), (1, (1, ''Breakfast'', 7))] 3,
         Eq [(1, (1, ''Breakfast'', 7))] 0,
         Le [(1, (0, ''Breakfast'', 7)), (1, (1, ''Breakfast'', 7))] 1]\<rparr>"



text \<open>A catalog of two recipes and values that select every recipe in every slot.\<close>

definition catalog2 :: "recipe list" where
  "catalog2 =
     [\<lparr>recipe_id = 0, title = ''Omelet'', ingredients = Some [(''eggs'', 1)]\<rparr>,
      \<lparr>recipe_id = 1, title = ''Toast'', ingredients = Some [(''bread'', 2)]\<rparr>]"

definition all_selected :: assignment where
  "all_selected v = 1"

section \<open>Properties of the objective\<close>

lemma recipe_value_loop_sum:
  "recipe_value_loop inventory xs acc =
     acc + (\<Sum>(item_name, amount_needed)\<leftarrow>xs.
              case map_of inventory item_name of
                None \<Rightarrow> 0
              | Some item_data \<Rightarrow> expiry_weight_of item_data * amount_needed)"
  by (induction xs arbitrary: acc) (auto split: option.splits)

lemma sum_list_pick:
  "distinct (map f xs) \<Longrightarrow> x \<in> set xs \<Longrightarrow>
     (\<Sum>y\<leftarrow>xs. if f y = f x then g y else (0::real)) = g x"
proof (induction xs)
  case Nil
  then show ?case by simp
next
  case (Cons y ys)
  have none: "k \<notin> f ` set zs \<Longrightarrow> (\<Sum>z\<leftarrow>zs. if f z = k then g z else (0::real)) = 0" for k zs
    by (induction zs) auto
  show ?case
  proof (cases "x = y")
    case True
    with Cons.prems have "f x \<notin> f ` set ys" by simp
    with True show ?thesis by (simp add: none)
  next
    case False
    with Cons.prems have "x \<in> set ys" "f y \<noteq> f x" by force+
    with Cons show ?thesis by simp
  qed
qed

lemma coeff_concat: "coeff (concat (map F xs)) v = (\<Sum>x\<leftarrow>xs. coeff (F x) v)"
  by (induction xs) (auto simp: coeff_def)

lemma coeff_row:
  "coeff (map (\<lambda>r. (w r, (d', m', recipe_id r))) recipes) (d, m, i) =
     (if d' = d then (if m' = m then (\<Sum>r\<leftarrow>recipes. if recipe_id r = i then w r else 0) else 0)
      else 0)"
  by (induction recipes) (auto simp: coeff_def)

lemma coeff_objective_terms:
  assumes "d < days" "m \<in> set meals" "r \<in> set recipes"
    "distinct meals" "distinct (map recipe_id recipes)"
  shows "coeff (objective_terms inventory recipes days meals) (d, m, recipe_id r) =
           term_weight inventory days d r"
proof -
  let ?row = "\<lambda>d'. (\<Sum>r'\<leftarrow>recipes. if recipe_id r' = recipe_id r
                                   then term_weight inventory days d' r' else 0)"
  have row: "?row d' = term_weight inventory days d' r" for d'
    using sum_list_pick [OF assms(5) assms(3), of "term_weight inventory days d'"] by simp
  have meal: "(\<Sum>m'\<leftarrow>meals. if m' = m then c else (0::real)) = c" for c
    using sum_list_pick [of "\<lambda>x. x" meals m "\<lambda>_. c"] assms(2,4) by simp
  have day: "(\<Sum>d'\<leftarrow>[0..<days]. if d' = d then g d' else (0::real)) = g d" for g
    using sum_list_pick [of "\<lambda>x. x" "[0..<days]" d g] assms(1) by simp
  have "coeff (objective_terms inventory recipes days meals) (d, m, recipe_id r) =
          (\<Sum>d'\<leftarrow>[0..<days]. \<Sum>m'\<leftarrow>meals.
              if d' = d then (if m' = m then ?row d' else 0) else 0)"
    unfolding objective_terms_def by (simp add: coeff_concat coeff_row o_def)
  also have "\<dots> = (\<Sum>d'\<leftarrow>[0..<days].
                      if d' = d then (\<Sum>m'\<leftarrow>meals. if m' = m then ?row d' else 0) else 0)"
    by (rule arg_cong [where f = sum_list], rule map_cong) auto
  also have "\<dots> = ?row d"
    by (simp add: day meal)
  finally show ?thesis by (simp add: row)
qed

lemma build_model_objective:
  "build_model parse anti inventory recipes days meals = Inr p \<Longrightarrow>
     objective p = objective_terms inventory recipes days meals"
  by (auto simp: build_model_def split: sum.splits)

lemma omelet_build:
  "build_model parse True omelet_inventory omelet_recipes 2 [''Breakfast''] = Inr omelet_problem"
  by (simp add: build_model_def omelet_inventory_def omelet_recipes_def omelet_problem_def
      item_constraints_def inventory_limit_def total_usage_def amount_of_def ingredients_of_def
      objective_terms_def term_weight_def recipe_value_def base_slot_fill_bonus_def
      at_most_one_recipe_per_meal_def no_duplicate_recipe_def no_consecutive_def
      upt_rec numeral_2_eq_2)

text \<open>
  C1. In the built model, whatever the horizon and with or without anti-repetition, the
  objective coefficient of the variable of day \<open>d\<close>, meal \<open>m\<close> and recipe \<open>r\<close> is
  \<open>recipeValue(r) * 100 + 10000 * (days - d + 1)^2\<close>, where \<open>recipeValue(r)\<close> sums
  \<open>expiryWeight * amount\<close> over the ingredients of \<open>r\<close> that are in the inventory (weight 1
  when the entry has none) and an ingredient that is not in the inventory adds 0. The
  variable is the dict key \<open>(d, m, id)\<close>: the meal types and the recipe ids of the request
  are pairwise different.
\<close>

theorem objective_coefficient:
  assumes "build_model parse anti inventory recipes days meals = Inr p"
    and "d < days" and "m \<in> set meals" and "r \<in> set recipes"
    and "distinct meals" and "distinct (map recipe_id recipes)"
  shows "coeff (objective p) (d, m, recipe_id r) =
           (\<Sum>(item_name, amount_needed)\<leftarrow>ingredients_of r.
               case map_of inventory item_name of
                 None \<Rightarrow> 0
               | Some (ItemDict it) \<Rightarrow>
                   (case expiry_weight it of None \<Rightarrow> 1 | Some w \<Rightarrow> w) * amount_needed
               | Some other \<Rightarrow> 1 * amount_needed) * 100
           + 10000 * (real days - real d + 1) ^ 2"
proof -
  have w: "expiry_weight_of item_data * q =
             (case item_data of
                ItemDict it \<Rightarrow> (case expiry_weight it of None \<Rightarrow> 1 | Some w \<Rightarrow> w) * q
              | other \<Rightarrow> 1 * q)" for item_data q
    by (cases item_data) simp_all
  have "coeff (objective p) (d, m, recipe_id r) = term_weight inventory days d r"
    using assms by (simp add: build_model_objective coeff_objective_terms)
  also have "\<dots> = recipe_value inventory r * 100 + 10000 * (real days - real d + 1) ^ 2"
    by (simp add: term_weight_def base_slot_fill_bonus_def)
  finally show ?thesis
    by (simp add: recipe_value_def recipe_value_loop_sum w cong: option.case_cong)
qed

theorem objective_coefficient_witness:
  "coeff (objective omelet_problem) (0, ''Breakfast'', 0) = 90500
   \<and> coeff (objective omelet_problem) (1, ''Breakfast'', 0) = 40500"
  using objective_coefficient [OF omelet_build, of 0 "''Breakfast''" "hd omelet_recipes"]
    objective_coefficient [OF omelet_build, of 1 "''Breakfast''" "hd omelet_recipes"]
  by (simp add: omelet_recipes_def omelet_inventory_def ingredients_of_def)


section \<open>Properties of the schedule extraction\<close>

lemma first_selected_find:
  "first_selected a d m recipes =
     (case find (\<lambda>r. a (d, m, recipe_id r) = 1) recipes of
        None \<Rightarrow> []
      | Some r \<Rightarrow> [(m, recipe_id r)])"
  by (induction recipes) auto

lemma day_meals_loop_concat:
  "day_meals_loop a d recipes ms acc =
     acc @ concat (map (\<lambda>m. first_selected a d m recipes) ms)"
  by (induction ms arbitrary: acc) auto

lemma schedule_loop_filter:
  "schedule_loop a recipes meals ds acc =
     acc @ filter (\<lambda>(label, day_meals). day_meals \<noteq> [])
             (map (\<lambda>d. (d + 1, day_meals_loop a d recipes meals [])) ds)"
  by (induction ds arbitrary: acc) (auto simp: Let_def)

lemma extract_schedule_closed:
  "extract_schedule a recipes days meals =
     filter (\<lambda>(label, day_meals). day_meals \<noteq> [])
       (map (\<lambda>d. (d + 1, concat (map (\<lambda>m. first_selected a d m recipes) meals))) [0..<days])"
  by (simp add: extract_schedule_def schedule_loop_filter day_meals_loop_concat)

text \<open>
  C6. The extraction goes through the days \<open>0 .. days - 1\<close> of the effective horizon in
  order and, within a day, through the meal types in the order of the request; a slot
  gives the entry \<open>(meal type, recipe id)\<close> of the first recipe of the catalog whose
  variable has the value 1, and nothing when there is none; a day without entries is left
  out of the schedule.
\<close>

theorem extraction_order:
  "extract_schedule a recipes days meals =
     filter (\<lambda>(label, day_meals). day_meals \<noteq> [])
       (map (\<lambda>d. (d + 1,
                   concat (map (\<lambda>m. case find (\<lambda>r. a (d, m, recipe_id r) = 1) recipes of
                                       None \<Rightarrow> []
                                     | Some r \<Rightarrow> [(m, recipe_id r)]) meals)))
            [0..<days])"
  by (simp add: extract_schedule_closed first_selected_find)

theorem extraction_order_witness:
  "extract_schedule day_one_only omelet_recipes 2 [''Breakfast''] = [(1, [(''Breakfast'', 0)])]"
  using extraction_order [of day_one_only omelet_recipes 2 "[''Breakfast'']"]
  by (simp add: day_one_only_def omelet_recipes_def upt_rec numeral_2_eq_2)

lemma first_selected_cases:
  "first_selected a d m recipes = [] \<or>
   (\<exists>r \<in> set recipes. a (d, m, recipe_id r) = 1 \<and> first_selected a d m recipes = [(m, recipe_id r)])"
  by (induction recipes) auto

lemma subseq_day_meals:
  "subseq (map fst (concat (map (\<lambda>m. first_selected a d m recipes) meals))) meals"
proof (induction meals)
  case Nil
  then show ?case by simp
next
  case (Cons m ms)
  from first_selected_cases [of a d m recipes] show ?case
  proof
    assume "first_selected a d m recipes = []"
    with Cons show ?thesis by (simp add: list_emb_Cons)
  next
    assume "\<exists>r \<in> set recipes. a (d, m, recipe_id r) = 1 \<and> first_selected a d m recipes = [(m, recipe_id r)]"
    with Cons show ?thesis by auto
  qed
qed

lemma day_meals_from_catalog:
  "(m, i) \<in> set (concat (map (\<lambda>m. first_selected a d m recipes) meals)) \<Longrightarrow>
     m \<in> set meals \<and> (\<exists>r \<in> set recipes. recipe_id r = i \<and> a (d, m, i) = 1)"
proof (induction meals)
  case Nil
  then show ?case by simp
next
  case (Cons m' ms)
  then show ?case
    using first_selected_cases [of a d m' recipes] by auto
qed

lemma extract_labels:
  "map fst (extract_schedule a recipes days meals) =
     filter (\<lambda>l. concat (map (\<lambda>m. first_selected a (l - 1) m recipes) meals) \<noteq> []) [1..<Suc days]"
proof -
  have "map fst (filter (\<lambda>(label, day_meals). day_meals \<noteq> []) (map (\<lambda>d. (d + 1, f d)) ds)) =
        filter (\<lambda>l. f (l - 1) \<noteq> []) (map Suc ds)" for f :: "nat \<Rightarrow> (string \<times> int) list" and ds
    by (induction ds) auto
  then show ?thesis
    by (simp add: extract_schedule_closed map_Suc_upt)
qed

lemma extract_all_selected:
  "extract_schedule all_selected catalog2 1 [''Breakfast'', ''Lunch''] =
     [(1, [(''Breakfast'', 0), (''Lunch'', 0)])]"
  by (simp add: extract_schedule_def all_selected_def catalog2_def)

text \<open>
  C9. Whatever the variable values are, also when several recipes of one slot have the
  value 1: the meal types of a day's entries are a subsequence of the request's meal
  types, one entry at most for each slot (so no meal type twice when the request names
  none twice), every recipe id of the schedule is the id of a recipe of the catalog, and
  no day occurs twice.
\<close>

theorem one_entry_per_slot:
  assumes "(label, day_meals) \<in> set (extract_schedule a recipes days meals)"
  shows "subseq (map fst day_meals) meals
     \<and> (distinct meals \<longrightarrow> distinct (map fst day_meals))
     \<and> (\<forall>(m, i) \<in> set day_meals. i \<in> recipe_id ` set recipes)
     \<and> 1 \<le> label \<and> label \<le> days
     \<and> distinct (map fst (extract_schedule a recipes days meals))"
proof -
  from assms obtain d where d: "d < days" "label = d + 1"
    and dm: "day_meals = concat (map (\<lambda>m. first_selected a d m recipes) meals)"
    by (auto simp: extract_schedule_closed)
  have s: "subseq (map fst day_meals) meals"
    unfolding dm by (rule subseq_day_meals)
  have "\<forall>(m, i) \<in> set day_meals. i \<in> recipe_id ` set recipes"
    unfolding dm using day_meals_from_catalog [of _ _ a d recipes meals] by blast
  moreover have "distinct (map fst (extract_schedule a recipes days meals))"
    by (simp add: extract_labels)
  ultimately show ?thesis
    using s d by (auto simp: subseq_conv_nths)
qed


theorem one_entry_per_slot_witness:
  "(1, [(''Breakfast'', 0), (''Lunch'', 0)])
      \<in> set (extract_schedule all_selected catalog2 1 [''Breakfast'', ''Lunch''])
   \<and> distinct (map fst [(''Breakfast'', 0::int), (''Lunch'', 0)])
   \<and> 0 \<in> recipe_id ` set catalog2"
proof -
  have mem: "(1, [(''Breakfast'', 0), (''Lunch'', 0)])
      \<in> set (extract_schedule all_selected catalog2 1 [''Breakfast'', ''Lunch''])"
    unfolding extract_all_selected by simp
  from one_entry_per_slot [OF mem] mem show ?thesis by simp
qed

section \<open>Properties of the built model\<close>

lemma item_constraints_limit:
  "item_constraints parse recipes days meals entry = Inr (cs, ws) \<Longrightarrow>
     inventory_limit recipes days meals entry \<in> set cs"
  by (auto simp: item_constraints_def Let_def split: item_data.splits option.splits sum.splits if_splits)

lemma inventory_constraints_limit:
  "inventory_constraints parse recipes days meals inventory = Inr (cs, ws) \<Longrightarrow> entry \<in> set inventory \<Longrightarrow>
     inventory_limit recipes days meals entry \<in> set cs"
proof (induction inventory arbitrary: cs ws)
  case Nil
  then show ?case by simp
next
  case (Cons e rest)
  from Cons.prems(1) obtain cs1 ws1 cs2 ws2
    where 1: "item_constraints parse recipes days meals e = Inr (cs1, ws1)"
      and 2: "inventory_constraints parse recipes days meals rest = Inr (cs2, ws2)"
      and cs: "cs = cs1 @ cs2"
    by (auto split: sum.splits)
  from Cons.prems(2) have "entry = e \<or> entry \<in> set rest" by auto
  then show ?case
  proof
    assume "entry = e"
    with item_constraints_limit [OF 1] cs show ?thesis by simp
  next
    assume "entry \<in> set rest"
    from Cons.IH [OF 2 this] cs show ?thesis by simp
  qed
qed

lemma build_model_constraints:
  "build_model parse anti inventory recipes days meals = Inr p \<Longrightarrow>
     \<exists>item_cs ws. inventory_constraints parse recipes days meals inventory = Inr (item_cs, ws) \<and>
       constraints p =
         at_most_one_recipe_per_meal recipes days meals
         @ no_duplicate_recipe recipes days meals
         @ item_cs
         @ (if anti then no_consecutive recipes days meals else [])"
  by (auto simp: build_model_def split: sum.splits)

lemma satisfies_holds: "satisfies a p \<Longrightarrow> c \<in> set (constraints p) \<Longrightarrow> holds a c"
  by (simp add: satisfies_def list_all_iff)

lemma eval_concat: "eval a (concat (map F xs)) = (\<Sum>x\<leftarrow>xs. eval a (F x))"
  by (induction xs) (auto simp: eval_def)

lemma eval_map: "eval a (map (\<lambda>r. (c r, v r)) rs) = (\<Sum>r\<leftarrow>rs. c r * a (v r))"
  by (simp add: eval_def o_def)

lemma slot_in_model:
  assumes "build_model parse anti inventory recipes days meals = Inr p" "d < days" "m \<in> set meals"
  shows "Le (map (\<lambda>r. (1, (d, m, recipe_id r))) recipes) 1 \<in> set (constraints p)"
proof -
  have "Le (map (\<lambda>r. (1, (d, m, recipe_id r))) recipes) 1
          \<in> set (at_most_one_recipe_per_meal recipes days meals)"
    using assms(2,3) by (auto simp: at_most_one_recipe_per_meal_def)
  with build_model_constraints [OF assms(1)] show ?thesis by auto
qed

lemma var_in_model:
  assumes "build_model parse anti inventory recipes days meals = Inr p"
    "d < days" "m \<in> set meals" "r \<in> set recipes"
  shows "(d, m, recipe_id r) \<in> vars_of p"
proof -
  have "(d, m, recipe_id r) \<in> set (map snd (objective_terms inventory recipes days meals))"
    using assms(2-4) by (force simp: objective_terms_def)
  then show ?thesis
    using build_model_objective [OF assms(1)] by (simp add: vars_of_def)
qed

lemma zero_one_sum_nonpos:
  fixes f :: "'a \<Rightarrow> real"
  shows "\<forall>x \<in> set xs. f x = 0 \<or> f x = 1 \<Longrightarrow> (\<Sum>x\<leftarrow>xs. f x) \<le> 0 \<Longrightarrow> \<forall>x \<in> set xs. f x = 0"
proof (induction xs)
  case Nil
  then show ?case by simp
next
  case (Cons y ys)
  have bin: "\<forall>x \<in> set ys. f x = 0 \<or> f x = 1" and y: "f y = 0 \<or> f y = 1"
    using Cons.prems(1) by simp_all
  have "\<And>x. x \<in> set (map f ys) \<Longrightarrow> 0 \<le> x"
    using bin by auto
  then have nn: "0 \<le> sum_list (map f ys)"
    by (rule sum_list_nonneg)
  have total: "f y + sum_list (map f ys) \<le> 0"
    using Cons.prems(2) by simp
  from y nn total have y0: "f y = 0" by linarith
  with total have "sum_list (map f ys) \<le> 0" by simp
  with bin have "\<forall>x \<in> set ys. f x = 0" by (rule Cons.IH)
  with y0 show ?case by simp
qed

lemma sum_list_cong_on:
  fixes f g :: "'a \<Rightarrow> real"
  shows "(\<And>x. x \<in> set xs \<Longrightarrow> f x = g x) \<Longrightarrow> (\<Sum>x\<leftarrow>xs. f x) = (\<Sum>x\<leftarrow>xs. g x)"
  by (induction xs) simp_all

lemma sum_list_all_zero:
  fixes f :: "'a \<Rightarrow> real"
  shows "\<forall>x \<in> set xs. f x = 0 \<Longrightarrow> (\<Sum>x\<leftarrow>xs. c x * f x) = 0"
  by (induction xs) simp_all

lemma slot_sum_find:
  fixes a :: assignment
  shows "\<forall>r \<in> set rs. a (d, m, recipe_id r) = 0 \<or> a (d, m, recipe_id r) = 1 \<Longrightarrow>
         (\<Sum>r\<leftarrow>rs. a (d, m, recipe_id r)) \<le> 1 \<Longrightarrow>
         (\<Sum>r\<leftarrow>rs. c r * a (d, m, recipe_id r)) =
           (case find (\<lambda>r. a (d, m, recipe_id r) = 1) rs of None \<Rightarrow> 0 | Some r \<Rightarrow> c r)"
proof (induction rs)
  case Nil
  then show ?case by simp
next
  case (Cons r rs)
  have bin: "\<forall>r' \<in> set rs. a (d, m, recipe_id r') = 0 \<or> a (d, m, recipe_id r') = 1"
    using Cons.prems(1) by simp
  have total: "a (d, m, recipe_id r) + (\<Sum>r\<leftarrow>rs. a (d, m, recipe_id r)) \<le> 1"
    using Cons.prems(2) by simp
  show ?case
  proof (cases "a (d, m, recipe_id r) = 1")
    case True
    with total have "(\<Sum>r\<leftarrow>rs. a (d, m, recipe_id r)) \<le> 0" by simp
    with bin have "\<forall>r' \<in> set rs. a (d, m, recipe_id r') = 0"
      by (rule zero_one_sum_nonpos)
    then have "(\<Sum>r\<leftarrow>rs. c r * a (d, m, recipe_id r)) = 0"
      by (rule sum_list_all_zero)
    with True show ?thesis by simp
  next
    case False
    with Cons.prems(1) have z: "a (d, m, recipe_id r) = 0" by simp
    with total have "(\<Sum>r\<leftarrow>rs. a (d, m, recipe_id r)) \<le> 1" by simp
    with bin have "(\<Sum>r\<leftarrow>rs. c r * a (d, m, recipe_id r)) =
           (case find (\<lambda>r. a (d, m, recipe_id r) = 1) rs of None \<Rightarrow> 0 | Some r \<Rightarrow> c r)"
      by (rule Cons.IH)
    with z show ?thesis by simp
  qed
qed

lemma find_same:
  "find P xs = Some x \<Longrightarrow> Q x \<Longrightarrow> (\<forall>y \<in> set xs. Q y \<longrightarrow> P y) \<Longrightarrow> find Q xs = Some x"
  by (induction xs) (auto split: if_splits)

lemma slot_usage:
  fixes a :: assignment
  assumes "\<forall>r \<in> set recipes. a (d, m, recipe_id r) = 0 \<or> a (d, m, recipe_id r) = 1"
    "(\<Sum>r\<leftarrow>recipes. a (d, m, recipe_id r)) \<le> 1"
  shows "(\<Sum>r\<leftarrow>recipes. amount_of r n * a (d, m, recipe_id r)) =
           (\<Sum>(m', i)\<leftarrow>first_selected a d m recipes. required_amount recipes n i)"
proof (cases "find (\<lambda>r. a (d, m, recipe_id r) = 1) recipes")
  case None
  with slot_sum_find [OF assms] show ?thesis
    by (simp add: first_selected_find)
next
  case (Some r)
  then have "a (d, m, recipe_id r) = 1"
    by (auto simp: find_Some_iff)
  with Some have "find (\<lambda>r'. recipe_id r' = recipe_id r) recipes = Some r"
    using find_same [of "\<lambda>r. a (d, m, recipe_id r) = 1" recipes r "\<lambda>r'. recipe_id r' = recipe_id r"]
    by simp
  with Some slot_sum_find [OF assms, of "\<lambda>r. amount_of r n"] show ?thesis
    by (simp add: first_selected_find required_amount_def)
qed

lemma schedule_usage_extract:
  "schedule_usage recipes n (extract_schedule a recipes days meals) =
     (\<Sum>d\<leftarrow>[0..<days]. \<Sum>m\<leftarrow>meals. \<Sum>(m', i)\<leftarrow>first_selected a d m recipes.
         required_amount recipes n i)"
proof -
  have drop: "(\<Sum>(label, day_meals)\<leftarrow>filter (\<lambda>(label, day_meals). day_meals \<noteq> []) xs.
                 \<Sum>(m, i)\<leftarrow>day_meals. g i) =
              (\<Sum>(label, day_meals)\<leftarrow>xs. \<Sum>(m, i)\<leftarrow>day_meals. g i)"
    for xs :: "day_entry list" and g :: "int \<Rightarrow> real"
    by (induction xs) auto
  have cat: "(\<Sum>(m, i)\<leftarrow>concat (map F ms). g i) = (\<Sum>m\<leftarrow>ms. \<Sum>(m', i)\<leftarrow>F m. g i)"
    for F :: "string \<Rightarrow> (string \<times> int) list" and ms and g :: "int \<Rightarrow> real"
    by (induction ms) auto
  show ?thesis
    by (simp add: schedule_usage_def extract_schedule_closed drop cat o_def)
qed

lemma day_one_only_binary: "binary_on day_one_only omelet_problem"
  by (simp add: binary_on_def vars_of_def omelet_problem_def day_one_only_def)

lemma day_one_only_satisfies: "satisfies day_one_only omelet_problem"
  by (simp add: satisfies_def omelet_problem_def day_one_only_def eval_def)

text \<open>
  C4. For 0/1 values that satisfy the constraints of a built model (any horizon, with or
  without anti-repetition) and for every inventory entry, the amounts of the item that the
  entries of the extracted schedule require add up to at most the available quantity of
  the item.
\<close>

theorem schedule_within_inventory:
  assumes "build_model parse anti inventory recipes days meals = Inr p"
    and "binary_on a p" and "satisfies a p" and "entry \<in> set inventory"
  shows "schedule_usage recipes (fst entry) (extract_schedule a recipes days meals)
           \<le> available_qty (snd entry)"
proof -
  let ?n = "fst entry"
  have slot: "(\<Sum>r\<leftarrow>recipes. amount_of r ?n * a (d, m, recipe_id r)) =
                (\<Sum>(m', i)\<leftarrow>first_selected a d m recipes. required_amount recipes ?n i)"
    if "d < days" "m \<in> set meals" for d m
  proof (rule slot_usage)
    show "\<forall>r \<in> set recipes. a (d, m, recipe_id r) = 0 \<or> a (d, m, recipe_id r) = 1"
      using var_in_model [OF assms(1) that] assms(2) by (auto simp: binary_on_def)
    have "holds a (Le (map (\<lambda>r. (1, (d, m, recipe_id r))) recipes) 1)"
      using satisfies_holds [OF assms(3) slot_in_model [OF assms(1) that]] .
    then show "(\<Sum>r\<leftarrow>recipes. a (d, m, recipe_id r)) \<le> 1"
      by (simp add: eval_map)
  qed
  obtain item_cs ws where "inventory_constraints parse recipes days meals inventory = Inr (item_cs, ws)"
    and cs: "set item_cs \<subseteq> set (constraints p)"
    using build_model_constraints [OF assms(1)] by fastforce
  then have "inventory_limit recipes days meals entry \<in> set (constraints p)"
    using inventory_constraints_limit assms(4) by blast
  then have "holds a (inventory_limit recipes days meals entry)"
    using satisfies_holds [OF assms(3)] by simp
  then have "(\<Sum>d\<leftarrow>[0..<days]. \<Sum>m\<leftarrow>meals. \<Sum>r\<leftarrow>recipes. amount_of r ?n * a (d, m, recipe_id r))
               \<le> available_qty (snd entry)"
    by (simp add: inventory_limit_def total_usage_def eval_concat eval_map o_def)
  moreover have "(\<Sum>d\<leftarrow>[0..<days]. \<Sum>m\<leftarrow>meals. \<Sum>r\<leftarrow>recipes. amount_of r ?n * a (d, m, recipe_id r)) =
                 (\<Sum>d\<leftarrow>[0..<days]. \<Sum>m\<leftarrow>meals. \<Sum>(m', i)\<leftarrow>first_selected a d m recipes.
                     required_amount recipes ?n i)"
    by (intro sum_list_cong_on) (simp add: slot)
  ultimately show ?thesis
    by (simp add: schedule_usage_extract)
qed


theorem schedule_within_inventory_witness:
  "schedule_usage omelet_recipes ''eggs''
      (extract_schedule day_one_only omelet_recipes 2 [''Breakfast'']) \<le> 2"
  using schedule_within_inventory [OF omelet_build day_one_only_binary day_one_only_satisfies,
      of "(''eggs'', ItemDict \<lparr>qty = Some 2, expiry_weight = Some 5, days_until_expiry = None\<rparr>)"]
  by (simp add: omelet_inventory_def)


section \<open>Properties of the constraint families\<close>

lemma set_forbid:
  "set (forbid recipes meals item_name ds) =
     {Eq [(1, (d, m, recipe_id r))] 0 | d m r.
        d \<in> set ds \<and> m \<in> set meals \<and> r \<in> set recipes \<and> uses_item r item_name}"
  by (auto simp: forbid_def)

lemma set_expired_item:
  "set (expired_item recipes days meals item_name k) =
     {Eq [(1, (d, m, recipe_id r))] 0 | d m r.
        d < days \<and> m \<in> set meals \<and> r \<in> set recipes \<and> uses_item r item_name \<and>
        (k \<le> 0 \<or> (0 < k \<and> k < int days \<and> k \<le> int d))}"
proof (cases "k \<le> 0")
  case True
  then show ?thesis by (auto simp: expired_item_def set_forbid)
next
  case False
  then have k: "0 < k" by simp
  show ?thesis
  proof (cases "k < int days")
    case True
    have "\<And>d. (nat k \<le> d \<and> d < days) = (d < days \<and> k \<le> int d)"
      using k by auto
    with k True show ?thesis
      by (auto simp: expired_item_def set_forbid)
  next
    case False
    with k show ?thesis by (auto simp: expired_item_def)
  qed
qed

lemma inventory_constraints_entry:
  "inventory_constraints parse recipes days meals inventory = Inr (cs, ws) \<Longrightarrow> entry \<in> set inventory \<Longrightarrow>
     \<exists>cs' ws'. item_constraints parse recipes days meals entry = Inr (cs', ws') \<and> set cs' \<subseteq> set cs"
proof (induction inventory arbitrary: cs ws)
  case Nil
  then show ?case by simp
next
  case (Cons e rest)
  then show ?case
    by (fastforce split: sum.splits)
qed

lemma item_constraints_cutoff:
  "days_until_expiry it = Some raw \<Longrightarrow> days_until_expiry_int parse raw = Inr k \<Longrightarrow>
     item_constraints parse recipes days meals (item_name, ItemDict it) =
       Inr (inventory_limit recipes days meals (item_name, ItemDict it)
            # expired_item recipes days meals item_name k, [])"
  by (simp add: item_constraints_def)

lemma milk_build:
  "build_model parse True milk_inventory milk_recipes 2 [''Breakfast''] = Inr milk_problem"
  by (simp add: build_model_def milk_inventory_def milk_recipes_def milk_problem_def
      item_constraints_def inventory_limit_def total_usage_def amount_of_def ingredients_of_def
      objective_terms_def term_weight_def recipe_value_def base_slot_fill_bonus_def
      at_most_one_recipe_per_meal_def no_duplicate_recipe_def no_consecutive_def
      days_until_expiry_int_def round_half_even_def expired_item_def forbid_def uses_item_def
      upt_rec numeral_2_eq_2)

text \<open>
  C3. For an inventory entry whose \<^verbatim>\<open>days_until_expiry\<close> is present and converts to the
  integer \<open>k\<close>, the built model contains the expiry constraints of the item, and these are
  exactly the constraints \<open>x(d, m, r) = 0\<close> for the slots \<open>(d, m)\<close> of the horizon and the
  recipes \<open>r\<close> that have the item among their ingredients, on every day when \<open>k \<le> 0\<close> and
  on the days \<open>d \<ge> k\<close> when \<open>0 < k < days\<close>: no constraint of this family for a day
  before \<open>k\<close> or for a recipe without the item.
\<close>

theorem expiry_cutoff:
  assumes "build_model parse anti inventory recipes days meals = Inr p"
    and "(item_name, ItemDict it) \<in> set inventory"
    and "days_until_expiry it = Some raw"
    and "days_until_expiry_int parse raw = Inr k"
  shows "set (expired_item recipes days meals item_name k) \<subseteq> set (constraints p)
     \<and> set (expired_item recipes days meals item_name k) =
         {Eq [(1, (d, m, recipe_id r))] 0 | d m r.
            d < days \<and> m \<in> set meals \<and> r \<in> set recipes \<and> uses_item r item_name \<and>
            (k \<le> 0 \<or> (0 < k \<and> k < int days \<and> k \<le> int d))}"
proof -
  obtain item_cs ws where ics: "inventory_constraints parse recipes days meals inventory = Inr (item_cs, ws)"
    and cs: "set item_cs \<subseteq> set (constraints p)"
    using build_model_constraints [OF assms(1)] by fastforce
  from inventory_constraints_entry [OF ics assms(2)] item_constraints_cutoff [OF assms(3,4)]
  have "set (expired_item recipes days meals item_name k) \<subseteq> set item_cs"
    by fastforce
  with cs show ?thesis
    by (simp only: set_expired_item) blast
qed

theorem expiry_cutoff_witness:
  "set (expired_item milk_recipes 2 [''Breakfast''] ''milk'' 1) \<subseteq> set (constraints milk_problem)
   \<and> expired_item milk_recipes 2 [''Breakfast''] ''milk'' 1 = [Eq [(1, (1, ''Breakfast'', 7))] 0]"
proof -
  let ?it = "\<lparr>qty = Some 3, expiry_weight = None, days_until_expiry = Some (RInt 1)\<rparr>"
  have mem: "(''milk'', ItemDict ?it) \<in> set milk_inventory"
    by (simp add: milk_inventory_def)
  have field: "days_until_expiry ?it = Some (RInt 1)"
    by simp
  have conv: "days_until_expiry_int reject_all (RInt 1) = Inr 1"
    by (simp add: days_until_expiry_int_def round_half_even_def)
  have cutoff: "expired_item milk_recipes 2 [''Breakfast''] ''milk'' 1 = [Eq [(1, (1, ''Breakfast'', 7))] 0]"
    by (simp add: expired_item_def forbid_def milk_recipes_def uses_item_def ingredients_of_def
        upt_rec numeral_2_eq_2)
  from expiry_cutoff [OF milk_build mem field conv]
  have "set (expired_item milk_recipes 2 [''Breakfast''] ''milk'' 1) \<subseteq> set (constraints milk_problem)"
    by (rule conjunct1)
  with cutoff show ?thesis by simp
qed

text \<open>
  C5. The anti-repetition family is exactly the set of constraints
  \<open>x(d, m, r) + x(d + 1, m, r) \<le> 1\<close> for \<open>d + 1 < days\<close>, every meal type \<open>m\<close> and every
  recipe \<open>r\<close>. Values that select one recipe twice, for two different meal types or on two
  days that are not consecutive, satisfy the whole family. The full model is the model
  without anti-repetition followed by this family.
\<close>

theorem anti_repetition_family:
  "set (no_consecutive recipes days meals) =
     {Le [(1, (d, m, recipe_id r)), (1, (d + 1, m, recipe_id r))] 1 | d m r.
        d + 1 < days \<and> m \<in> set meals \<and> r \<in> set recipes}
   \<and> (m1 \<noteq> m2 \<or> (d2 \<noteq> d1 + 1 \<and> d1 \<noteq> d2 + 1) \<longrightarrow>
        list_all (holds (\<lambda>v. if v = (d1, m1, i) \<or> v = (d2, m2, i) then 1 else 0))
          (no_consecutive recipes days meals))
   \<and> (\<forall>p p'. build_model parse True inventory recipes days meals = Inr p \<and>
               build_model parse False inventory recipes days meals = Inr p' \<longrightarrow>
               constraints p = constraints p' @ no_consecutive recipes days meals)"
proof (intro conjI)
  show "set (no_consecutive recipes days meals) =
     {Le [(1, (d, m, recipe_id r)), (1, (d + 1, m, recipe_id r))] 1 | d m r.
        d + 1 < days \<and> m \<in> set meals \<and> r \<in> set recipes}"
  proof (intro equalityI subsetI)
    fix c
    assume "c \<in> set (no_consecutive recipes days meals)"
    then obtain d m r where "d < days - 1" "m \<in> set meals" "r \<in> set recipes"
      and c: "c = Le [(1, (d, m, recipe_id r)), (1, (d + 1, m, recipe_id r))] 1"
      unfolding no_consecutive_def by auto
    moreover from this have "d + 1 < days" by simp
    ultimately show "c \<in> {Le [(1, (d, m, recipe_id r)), (1, (d + 1, m, recipe_id r))] 1 | d m r.
        d + 1 < days \<and> m \<in> set meals \<and> r \<in> set recipes}"
      by blast
  next
    fix c
    assume "c \<in> {Le [(1, (d, m, recipe_id r)), (1, (d + 1, m, recipe_id r))] 1 | d m r.
        d + 1 < days \<and> m \<in> set meals \<and> r \<in> set recipes}"
    then obtain d m r where "d + 1 < days" "m \<in> set meals" "r \<in> set recipes"
      and c: "c = Le [(1, (d, m, recipe_id r)), (1, (d + 1, m, recipe_id r))] 1"
      by blast
    moreover from this have "d \<in> set [0..<days - 1]" by simp
    ultimately show "c \<in> set (no_consecutive recipes days meals)"
      unfolding no_consecutive_def by force
  qed
  show "m1 \<noteq> m2 \<or> (d2 \<noteq> d1 + 1 \<and> d1 \<noteq> d2 + 1) \<longrightarrow>
        list_all (holds (\<lambda>v. if v = (d1, m1, i) \<or> v = (d2, m2, i) then 1 else 0))
          (no_consecutive recipes days meals)"
    by (auto simp: no_consecutive_def list_all_iff eval_def)
  show "\<forall>p p'. build_model parse True inventory recipes days meals = Inr p \<and>
               build_model parse False inventory recipes days meals = Inr p' \<longrightarrow>
               constraints p = constraints p' @ no_consecutive recipes days meals"
    by (auto simp: build_model_def split: sum.splits)
qed

theorem anti_repetition_family_witness:
  "list_all (holds (\<lambda>v. if v = (0, ''Breakfast'', 0) \<or> v = (2, ''Breakfast'', 0) then 1 else 0))
     (no_consecutive omelet_recipes 3 [''Breakfast''])
   \<and> list_all (holds (\<lambda>v. if v = (0, ''Breakfast'', 0) \<or> v = (1, ''Lunch'', 0) then 1 else 0))
     (no_consecutive omelet_recipes 3 [''Breakfast'', ''Lunch''])"
  using anti_repetition_family [of omelet_recipes 3 "[''Breakfast'']" "''Breakfast''" "''Breakfast''" 2 0 0]
    anti_repetition_family [of omelet_recipes 3 "[''Breakfast'', ''Lunch'']" "''Breakfast''" "''Lunch''" 1 0 0]
  by simp





lemma skip_malformed_limit:
  "inventory_limit recipes days meals (skip_malformed parse entry) =
     inventory_limit recipes days meals entry"
  by (simp add: inventory_limit_def skip_malformed_def without_expiry_def split: item_data.splits)












section \<open>Properties of the fallbacks\<close>








lemma eval_zero: "eval (\<lambda>v. 0) e = 0"
  by (induction e) (auto simp: eval_def)

lemma item_constraints_shape:
  "item_constraints parse recipes days meals entry = Inr (cs, ws) \<Longrightarrow> c \<in> set cs \<Longrightarrow>
     c = inventory_limit recipes days meals entry \<or> (\<exists>v. c = Eq [(1, v)] 0)"
  by (auto simp: item_constraints_def Let_def expired_item_def forbid_def
      split: item_data.splits option.splits sum.splits if_splits)

lemma inventory_constraints_shape:
  "inventory_constraints parse recipes days meals inventory = Inr (cs, ws) \<Longrightarrow> c \<in> set cs \<Longrightarrow>
     (\<exists>entry \<in> set inventory. c = inventory_limit recipes days meals entry) \<or> (\<exists>v. c = Eq [(1, v)] 0)"
proof (induction inventory arbitrary: cs ws)
  case Nil
  then show ?case by simp
next
  case (Cons entry rest)
  then obtain cs1 ws1 cs2 ws2 where 1: "item_constraints parse recipes days meals entry = Inr (cs1, ws1)"
    and 2: "inventory_constraints parse recipes days meals rest = Inr (cs2, ws2)"
    and cs: "cs = cs1 @ cs2"
    by (auto split: sum.splits)
  from Cons.prems(2) cs have "c \<in> set cs1 \<or> c \<in> set cs2" by simp
  then show ?case
  proof
    assume "c \<in> set cs1"
    from item_constraints_shape [OF 1 this] show ?thesis by auto
  next
    assume "c \<in> set cs2"
    from Cons.IH [OF 2 this] show ?thesis by auto
  qed
qed

lemma model_constraint_shape:
  assumes "build_model parse anti inventory recipes days meals = Inr p"
    and "\<forall>entry \<in> set inventory. 0 \<le> available_qty (snd entry)"
    and "c \<in> set (constraints p)"
  shows "(\<exists>e b. c = Le e b \<and> eval (\<lambda>v. 0) e = 0 \<and> 0 \<le> b) \<or> (\<exists>v. c = Eq [(1, v)] 0)"
proof -
  obtain item_cs ws where ics: "inventory_constraints parse recipes days meals inventory = Inr (item_cs, ws)"
    and cs: "constraints p =
         at_most_one_recipe_per_meal recipes days meals
         @ no_duplicate_recipe recipes days meals
         @ item_cs
         @ (if anti then no_consecutive recipes days meals else [])"
    using build_model_constraints [OF assms(1)] by blast
  from assms(3) cs consider
      "c \<in> set (at_most_one_recipe_per_meal recipes days meals)"
    | "c \<in> set (no_duplicate_recipe recipes days meals)"
    | "c \<in> set item_cs"
    | "c \<in> set (no_consecutive recipes days meals)"
    by (auto split: if_splits)
  then show ?thesis
  proof cases
    case 1
    then show ?thesis by (auto simp: at_most_one_recipe_per_meal_def eval_zero)
  next
    case 2
    then show ?thesis by (auto simp: no_duplicate_recipe_def eval_zero)
  next
    case 3
    from inventory_constraints_shape [OF ics this] assms(2) show ?thesis
      by (auto simp: inventory_limit_def eval_zero)
  next
    case 4
    then show ?thesis by (auto simp: no_consecutive_def eval_zero)
  qed
qed

lemma omelet_solver_complete:
  "\<forall>st a. omelet_solver p = Some (st, a) \<and> feasible p \<longrightarrow> ok st"
  by (simp add: omelet_solver_def ok_def)

text \<open>
  C8. When every inventory quantity is at least 0, every constraint of the full model is
  an inequality whose left-hand side is 0 at the all-zero values and whose bound is at
  least 0, or an equality of one variable with 0; so the all-zero values satisfy the full
  model. With a solver that reports Optimal or Feasible on a problem that has a 0/1
  solution, the first attempt is then not Infeasible, the handler ends with the first
  attempt, and it never gives the response without a schedule.
\<close>

theorem zero_assignment_feasible:
  assumes "build_model parse True inventory recipes days meals = Inr p"
    and "\<forall>entry \<in> set inventory. 0 \<le> available_qty (snd entry)"
  shows "(\<forall>c \<in> set (constraints p).
            (\<exists>e b. c = Le e b \<and> eval (\<lambda>v. 0) e = 0 \<and> 0 \<le> b) \<or> (\<exists>v. c = Eq [(1, v)] 0))
     \<and> satisfies (\<lambda>v. 0) p \<and> binary_on (\<lambda>v. 0) p
     \<and> ((\<forall>st a. solve p = Some (st, a) \<and> feasible p \<longrightarrow> ok st) \<longrightarrow>
          (\<forall>st a. solve p = Some (st, a) \<longrightarrow> st \<noteq> Infeasible)
          \<and> solve_with_fallbacks solve parse inventory recipes days meals =
              (case solve p of
                 None \<Rightarrow> Inl SolverError
               | Some (st, a) \<Rightarrow> Inr (Solved st days a))
          \<and> (\<forall>st. solve_with_fallbacks solve parse inventory recipes days meals
                      \<noteq> Inr (Unsolved st)))"
proof -
  have shape: "\<forall>c \<in> set (constraints p).
            (\<exists>e b. c = Le e b \<and> eval (\<lambda>v. 0) e = 0 \<and> 0 \<le> b) \<or> (\<exists>v. c = Eq [(1, v)] 0)"
    using model_constraint_shape [OF assms] by blast
  then have "\<forall>c \<in> set (constraints p). holds (\<lambda>v. 0) c"
    by (auto simp: eval_def)
  then have sat: "satisfies (\<lambda>v. 0) p"
    by (simp add: satisfies_def list_all_iff)
  have bin: "binary_on (\<lambda>v. 0) p"
    by (simp add: binary_on_def)
  from sat bin have feas: "feasible p"
    unfolding feasible_def by blast
  have tiers: "(\<forall>st a. solve p = Some (st, a) \<longrightarrow> st \<noteq> Infeasible)
          \<and> solve_with_fallbacks solve parse inventory recipes days meals =
              (case solve p of
                 None \<Rightarrow> Inl SolverError
               | Some (st, a) \<Rightarrow> Inr (Solved st days a))
          \<and> (\<forall>st. solve_with_fallbacks solve parse inventory recipes days meals
                      \<noteq> Inr (Unsolved st))"
    if complete: "\<forall>st a. solve p = Some (st, a) \<and> feasible p \<longrightarrow> ok st"
  proof -
    have good: "ok st" if "solve p = Some (st, a)" for st a
      using complete feas that by blast
    then have 1: "\<forall>st a. solve p = Some (st, a) \<longrightarrow> st \<noteq> Infeasible"
      by (auto simp: ok_def)
    have 2: "solve_with_fallbacks solve parse inventory recipes days meals =
              (case solve p of
                 None \<Rightarrow> Inl SolverError
               | Some (st, a) \<Rightarrow> Inr (Solved st days a))"
      unfolding solve_with_fallbacks_def assms(1)
      by (auto split: option.splits dest: good)
    have 3: "\<forall>st. solve_with_fallbacks solve parse inventory recipes days meals
                      \<noteq> Inr (Unsolved st)"
      unfolding 2 by (auto split: option.splits)
    from 1 2 3 show ?thesis by blast
  qed
  from shape sat bin tiers show ?thesis by blast
qed

theorem zero_assignment_feasible_witness:
  "satisfies (\<lambda>v. 0) omelet_problem
   \<and> solve_with_fallbacks omelet_solver reject_all omelet_inventory omelet_recipes 2 [''Breakfast''] =
       Inr (Solved Optimal 2 day_one_only)"
proof -
  have qty: "\<forall>entry \<in> set omelet_inventory. 0 \<le> available_qty (snd entry)"
    by (simp add: omelet_inventory_def)
  from zero_assignment_feasible [OF omelet_build qty, of omelet_solver reject_all]
    omelet_solver_complete [of omelet_problem]
  show ?thesis
    by (simp add: omelet_solver_def)
qed


section \<open>The scenario\<close>

lemma omelet_feasible: "feasible omelet_problem"
  unfolding feasible_def using day_one_only_binary day_one_only_satisfies by blast

lemma omelet_vars: "vars_of omelet_problem = {(0, ''Breakfast'', 0), (1, ''Breakfast'', 0)}"
  by (auto simp: vars_of_def omelet_problem_def)

lemma omelet_objective:
  "eval b (objective omelet_problem) = 90500 * b (0, ''Breakfast'', 0) + 40500 * b (1, ''Breakfast'', 0)"
  by (simp add: omelet_problem_def eval_def)

lemma omelet_anti:
  "satisfies b omelet_problem \<Longrightarrow> b (0, ''Breakfast'', 0) + b (1, ''Breakfast'', 0) \<le> 1"
  by (simp add: satisfies_def omelet_problem_def eval_def)

lemma omelet_optimum:
  assumes "binary_on a omelet_problem" "satisfies a omelet_problem"
    "eval day_one_only (objective omelet_problem) \<le> eval a (objective omelet_problem)"
  shows "a (0, ''Breakfast'', 0) = 1 \<and> a (1, ''Breakfast'', 0) = 0"
proof -
  from assms(1) have b0: "a (0, ''Breakfast'', 0) = 0 \<or> a (0, ''Breakfast'', 0) = 1"
    and b1: "a (1, ''Breakfast'', 0) = 0 \<or> a (1, ''Breakfast'', 0) = 1"
    by (simp_all add: binary_on_def omelet_vars)
  from assms(3) have "90500 \<le> 90500 * a (0, ''Breakfast'', 0) + 40500 * a (1, ''Breakfast'', 0)"
    by (simp add: omelet_objective day_one_only_def)
  with b0 b1 omelet_anti [OF assms(2)] show ?thesis by auto
qed

lemma omelet_solver_exact: "solves_exactly omelet_solver omelet_problem"
proof -
  have "eval b (objective omelet_problem) \<le> eval day_one_only (objective omelet_problem)"
    if "binary_on b omelet_problem" "satisfies b omelet_problem" for b
  proof -
    from that(1) have "b (0, ''Breakfast'', 0) = 0 \<or> b (0, ''Breakfast'', 0) = 1"
      and "b (1, ''Breakfast'', 0) = 0 \<or> b (1, ''Breakfast'', 0) = 1"
      by (simp_all add: binary_on_def omelet_vars)
    with omelet_anti [OF that(2)] show ?thesis
      by (auto simp: omelet_objective day_one_only_def)
  qed
  then show ?thesis
    by (simp add: solves_exactly_def omelet_solver_def omelet_feasible
        day_one_only_binary day_one_only_satisfies)
qed

lemma omelet_extract:
  "a (0, ''Breakfast'', 0) = 1 \<Longrightarrow> a (1, ''Breakfast'', 0) = 0 \<Longrightarrow>
     extract_schedule a omelet_recipes 2 [''Breakfast''] = [(1, [(''Breakfast'', 0)])]"
  by (simp add: extract_schedule_def omelet_recipes_def upt_rec numeral_2_eq_2)

text \<open>
  C7, amended. On the scenario's request, with a solver that is exact on the full model,
  the endpoint returns status Optimal and the schedule with the one entry of day 1,
  Breakfast with recipe 0. The full model has a solution, so anti-repetition stays, and it
  keeps recipe 0 from day 2, which is left out as a day without meals.
\<close>

theorem omelet_schedule:
  assumes "solves_exactly solve omelet_problem"
  shows "solve_meal_plan solve parse omelet_request = Schedule Optimal [(1, [(''Breakfast'', 0)])]"
proof -
  from assms omelet_feasible obtain a where sol: "solve omelet_problem = Some (Optimal, a)"
    and bin: "binary_on a omelet_problem" and sat: "satisfies a omelet_problem"
    and opt: "\<forall>b. binary_on b omelet_problem \<and> satisfies b omelet_problem \<longrightarrow>
                 eval b (objective omelet_problem) \<le> eval a (objective omelet_problem)"
    by (auto simp: solves_exactly_def split: option.splits)
  from opt day_one_only_binary day_one_only_satisfies
  have "eval day_one_only (objective omelet_problem) \<le> eval a (objective omelet_problem)"
    by blast
  from omelet_optimum [OF bin sat this]
  have "extract_schedule a omelet_recipes 2 [''Breakfast''] = [(1, [(''Breakfast'', 0)])]"
    by (simp add: omelet_extract)
  moreover have "solve_with_fallbacks solve parse omelet_inventory omelet_recipes 2 [''Breakfast'']
      = Inr (Solved Optimal 2 a)"
    by (simp add: solve_with_fallbacks_def omelet_build sol ok_def)
  ultimately show ?thesis
    by (simp add: solve_meal_plan_def omelet_request_def omelet_inventory_def omelet_recipes_def)
qed

theorem omelet_schedule_witness:
  "solve_meal_plan omelet_solver reject_all omelet_request =
     Schedule Optimal [(1, [(''Breakfast'', 0)])]"
  using omelet_schedule [OF omelet_solver_exact] .

text \<open>
  The claim as stated fails: the stand-in solver is exact on the scenario's full model, and
  the response has day 1 only, not the two days.
\<close>

theorem omelet_schedule_counterexample:
  "build_model reject_all True omelet_inventory omelet_recipes 2 [''Breakfast''] = Inr omelet_problem
   \<and> solves_exactly omelet_solver omelet_problem
   \<and> solve_meal_plan omelet_solver reject_all omelet_request
       = Schedule Optimal [(1, [(''Breakfast'', 0)])]
   \<and> solve_meal_plan omelet_solver reject_all omelet_request
       \<noteq> Schedule Optimal [(1, [(''Breakfast'', 0)]), (2, [(''Breakfast'', 0)])]"
proof -
  have "solve_with_fallbacks omelet_solver reject_all omelet_inventory omelet_recipes 2 [''Breakfast'']
      = Inr (Solved Optimal 2 day_one_only)"
    by (simp add: solve_with_fallbacks_def omelet_build omelet_solver_def ok_def)
  moreover have "extract_schedule day_one_only omelet_recipes 2 [''Breakfast''] =
      [(1, [(''Breakfast'', 0)])]"
    by (simp add: omelet_extract day_one_only_def)
  ultimately have "solve_meal_plan omelet_solver reject_all omelet_request
       = Schedule Optimal [(1, [(''Breakfast'', 0)])]"
    by (simp add: solve_meal_plan_def omelet_request_def omelet_inventory_def omelet_recipes_def)
  with omelet_build omelet_solver_exact show ?thesis by simp
qed

end
